theory Spec2Isabelle
  imports Complex_Main
begin

section \<open>JavaScript values reaching the submission form\<close>

text \<open>
  The two remote calls of \<^verbatim>\<open>SubmitFeedback.tsx\<close> hand back values of TypeScript type
  \<^verbatim>\<open>any\<close>. They are modelled as JSON-like values. Only the truthiness of a number is
  ever inspected, so a number is a rational or one of the three special doubles.
\<close>

datatype jsnum = NaN | Finite rat | PosInfinity | NegInfinity

datatype jsval =
    JUndefined
  | JNull
  | JBool bool
  | JNum jsnum
  | JStr string
  | JArr "jsval list"
  | JObj "(string \<times> jsval) list"

text \<open>ToBoolean, as applied by \<^verbatim>\<open>if (error)\<close> and by \<^verbatim>\<open>||\<close>.\<close>

fun truthy :: "jsval \<Rightarrow> bool" where
  "truthy JUndefined = False"
| "truthy JNull = False"
| "truthy (JBool b) = b"
| "truthy (JNum n) = (n \<noteq> NaN \<and> n \<noteq> Finite 0)"
| "truthy (JStr s) = (s \<noteq> [])"
| "truthy (JArr xs) = True"
| "truthy (JObj ps) = True"

text \<open>The TypeError raised by a property read on \<^verbatim>\<open>null\<close> or \<^verbatim>\<open>undefined\<close>.\<close>

definition TypeError :: jsval where
  "TypeError = JObj [(''name'', JStr ''TypeError'')]"

text \<open>
  The property read \<^verbatim>\<open>v.k\<close> for a key that is not a built-in member (the source only
  reads \<^verbatim>\<open>sentiment\<close>): it throws on \<^verbatim>\<open>null\<close> and \<^verbatim>\<open>undefined\<close>
  (\<open>Inl\<close> is the thrown value), gives the member of an object and \<^verbatim>\<open>undefined\<close>
  everywhere else.
\<close>

fun getProp :: "jsval \<Rightarrow> string \<Rightarrow> jsval + jsval" where
  "getProp JUndefined k = Inl TypeError"
| "getProp JNull k = Inl TypeError"
| "getProp (JObj ps) k = Inr (case map_of ps k of None \<Rightarrow> JUndefined | Some v \<Rightarrow> v)"
| "getProp v k = Inr JUndefined"

text \<open>
  Whether ToString throws, as the template literal of line 138 applies it to the
  sentiment. No value of the model is callable. So an object with an own property
  \<^verbatim>\<open>toString\<close> has no callable \<^verbatim>\<open>toString\<close>, its \<^verbatim>\<open>valueOf\<close> is either an own
  property, not callable, or the inherited one, which gives the object back, and the
  conversion raises a TypeError. Every other object is converted by the inherited
  \<^verbatim>\<open>toString\<close>. An array joins the conversions of its elements, and throws when one of
  them does. Primitives never throw.
\<close>

fun toStringThrows :: "jsval \<Rightarrow> bool" where
  "toStringThrows (JObj ps) = (map_of ps ''toString'' \<noteq> None)"
| "toStringThrows (JArr xs) = list_ex toStringThrows xs"
| "toStringThrows v = False"

section \<open>Strings\<close>

text \<open>
  A string is a list of code units below 256 (Latin-1). On these,
  \<^verbatim>\<open>String.prototype.toLowerCase\<close> moves A-Z and the accented capitals U+00C0-U+00DE
  (the multiplication sign U+00D7 apart) up by 32, and \<^verbatim>\<open>String.prototype.trim\<close>
  strips TAB, LF, VT, FF, CR, SPACE and NBSP from both ends.
\<close>

definition isUpper :: "char \<Rightarrow> bool" where
  "isUpper c = (let n = (of_char c :: nat) in
     (65 \<le> n \<and> n \<le> 90) \<or> (192 \<le> n \<and> n \<le> 222 \<and> n \<noteq> 215))"

definition toLowerChar :: "char \<Rightarrow> char" where
  "toLowerChar c = (if isUpper c then char_of ((of_char c :: nat) + 32) else c)"

definition toLowerCase :: "string \<Rightarrow> string" where
  "toLowerCase s = map toLowerChar s"

definition isWhiteSpace :: "char \<Rightarrow> bool" where
  "isWhiteSpace c = ((of_char c :: nat) \<in> {9, 10, 11, 12, 13, 32, 160})"

definition trim :: "string \<Rightarrow> string" where
  "trim s = rev (dropWhile isWhiteSpace (rev (dropWhile isWhiteSpace s)))"

text \<open>\<^verbatim>\<open>String.prototype.includes\<close>: the key occurs at some position of the text.\<close>

fun starts_with :: "string \<Rightarrow> string \<Rightarrow> bool" where
  "starts_with t [] = True"
| "starts_with [] (k # ks) = False"
| "starts_with (c # cs) (k # ks) = (c = k \<and> starts_with cs ks)"

fun str_includes :: "string \<Rightarrow> string \<Rightarrow> bool" where
  "str_includes [] k = (k = [])"
| "str_includes (c # cs) k = (starts_with (c # cs) k \<or> str_includes cs k)"

text \<open>The mathematical notion the claims speak of: \<open>k\<close> is a contiguous part of \<open>t\<close>.\<close>

definition occurs_in :: "string \<Rightarrow> string \<Rightarrow> bool" where
  "occurs_in k t = (\<exists>p s. t = p @ k @ s)"

section \<open>The keyword fallback\<close>

text \<open>
  The body of the \<^verbatim>\<open>catch\<close> block of \<^verbatim>\<open>analyzeSentiment\<close> (lines 84-91), after the
  logging call.
\<close>

definition keywordFallback :: "string \<Rightarrow> string" where
  "keywordFallback text =
     (let lowerText = toLowerCase text in
      if str_includes lowerText ''excellent'' \<or> str_includes lowerText ''great''
         \<or> str_includes lowerText ''good'' \<or> str_includes lowerText ''helpful''
         \<or> str_includes lowerText ''amazing''
      then ''Positive''
      else if str_includes lowerText ''bad'' \<or> str_includes lowerText ''poor''
         \<or> str_includes lowerText ''terrible'' \<or> str_includes lowerText ''worst''
         \<or> str_includes lowerText ''disappointed''
      then ''Negative''
      else ''Neutral'')"

section \<open>Effects and remote replies\<close>

text \<open>
  The four toasts of \<^verbatim>\<open>handleSubmit\<close>:
  \<^item> \<open>StudentNotFoundToast\<close>: title 'Error', description 'Student information not found',
    destructive (the spec's MissingIdentity);
  \<^item> \<open>MissingFieldsToast\<close>: title 'Missing Fields', destructive (MissingFields);
  \<^item> \<open>FeedbackSubmittedToast s\<close>: title 'Feedback Submitted', description
    'Your feedback was classified as ' followed by \<open>s\<close> converted to a string (Ok);
  \<^item> \<open>SubmissionFailedToast\<close>: title 'Submission Failed', destructive (PersistenceFailed).
\<close>

datatype toast =
    StudentNotFoundToast
  | MissingFieldsToast
  | FeedbackSubmittedToast jsval
  | SubmissionFailedToast

text \<open>
  The interface \<^verbatim>\<open>StudentInfo\<close>; its field \<^verbatim>\<open>id\<close> is \<open>info_id\<close> here, and the
  row's \<^verbatim>\<open>subject\<close>, \<^verbatim>\<open>category\<close>, \<^verbatim>\<open>branch\<close> and \<^verbatim>\<open>semester\<close> carry the
  prefix \<open>row_\<close>, the plain names being fields of the form and of the student.
\<close>

record StudentInfo =
  info_id :: string
  branch :: string
  semester :: int

text \<open>The object literal handed to \<^verbatim>\<open>supabase.from('feedback').insert\<close>.\<close>

record feedback_row =
  student_id :: string
  row_subject :: string
  row_category :: string
  feedback_text :: string
  sentiment :: jsval
  row_branch :: string
  row_semester :: int

datatype effect =
    PreventDefault
  | ShowToast toast
  | SetIsSubmitting bool
  | SetIsAnalyzing bool
  | InvokeAnalyzeSentiment string
  | ConsoleError string jsval
  | InsertFeedback feedback_row
  | Navigate string

text \<open>
  The two remote calls are outside the program; each run of the handler makes each of
  them at most once, so a run takes what the call gives back as a parameter and records
  the call, with its argument, among its effects.

  What the awaited \<^verbatim>\<open>supabase.functions.invoke\<close> gives: the promise rejects with a
  value, or resolves to \<^verbatim>\<open>{ data, error }\<close>.
\<close>

datatype invoke_outcome = InvokeRejected jsval | InvokeResolved jsval jsval

text \<open>What the awaited insert gives: a rejection, or \<^verbatim>\<open>{ error }\<close>.\<close>

datatype insert_outcome = InsertRejected jsval | InsertResolved jsval

text \<open>The state the handler's closure reads.\<close>

record form =
  studentInfo :: "StudentInfo option"
  subject :: string
  category :: string
  feedbackText :: string

section \<open>analyzeSentiment\<close>

text \<open>
  The \<^verbatim>\<open>try\<close> block from the awaited reply on (lines 76-81): \<open>Inl\<close> is a thrown value,
  \<open>Inr\<close> the returned one.
\<close>

definition analyzeTry :: "invoke_outcome \<Rightarrow> jsval + jsval" where
  "analyzeTry r =
     (case r of
        InvokeRejected e \<Rightarrow> Inl e
      | InvokeResolved data err \<Rightarrow>
          if truthy err then Inl err
          else (case getProp data ''sentiment'' of
                  Inl e \<Rightarrow> Inl e
                | Inr s \<Rightarrow> Inr (if truthy s then s else JStr ''Neutral'')))"

text \<open>
  The whole function, with its \<^verbatim>\<open>catch\<close> and \<^verbatim>\<open>finally\<close>: the completion
  (\<open>Inl\<close> thrown to the caller, \<open>Inr\<close> returned) and the effects in order.
\<close>

definition analyzeSentiment ::
  "invoke_outcome \<Rightarrow> string \<Rightarrow> (jsval + jsval) \<times> effect list" where
  "analyzeSentiment invokeReply text =
     (case analyzeTry invokeReply of
        Inr v \<Rightarrow>
          (Inr v, [SetIsAnalyzing True, InvokeAnalyzeSentiment text, SetIsAnalyzing False])
      | Inl e \<Rightarrow>
          (Inr (JStr (keywordFallback text)),
           [SetIsAnalyzing True, InvokeAnalyzeSentiment text,
            ConsoleError ''Sentiment analysis error:'' e, SetIsAnalyzing False]))"

section \<open>handleSubmit\<close>

text \<open>The object literal of lines 124-132, for the computed sentiment \<open>s\<close>.\<close>

definition feedbackRow :: "StudentInfo \<Rightarrow> form \<Rightarrow> jsval \<Rightarrow> feedback_row" where
  "feedbackRow si f s =
     \<lparr> student_id = info_id si, row_subject = subject f, row_category = category f,
       feedback_text = feedbackText f, sentiment = s,
       row_branch = branch si, row_semester = semester si \<rparr>"

text \<open>
  The \<^verbatim>\<open>try\<close> block of \<^verbatim>\<open>handleSubmit\<close> (lines 120-141). After a successful insert
  the description of the toast is built first: when the sentiment cannot be converted to a
  string, the TypeError is thrown before the toast is shown and before the navigation.
\<close>

definition submitTry ::
  "invoke_outcome \<Rightarrow> insert_outcome \<Rightarrow> StudentInfo \<Rightarrow> form
     \<Rightarrow> (jsval + unit) \<times> effect list" where
  "submitTry invokeReply insertReply si f =
     (case analyzeSentiment invokeReply (feedbackText f) of
        (Inl e, es) \<Rightarrow> (Inl e, es)
      | (Inr s, es) \<Rightarrow>
          (let row = feedbackRow si f s
           in case insertReply of
                InsertRejected e \<Rightarrow> (Inl e, es @ [InsertFeedback row])
              | InsertResolved err \<Rightarrow>
                  if truthy err then (Inl err, es @ [InsertFeedback row])
                  else if toStringThrows s then (Inl TypeError, es @ [InsertFeedback row])
                  else (Inr (), es @ [InsertFeedback row,
                                      ShowToast (FeedbackSubmittedToast s),
                                      Navigate ''/student''])))"

text \<open>
  The handler (lines 97-152): its completion (\<open>Inl\<close> would be an exception escaping it) and
  its effects in order.
\<close>

definition handleSubmit ::
  "invoke_outcome \<Rightarrow> insert_outcome \<Rightarrow> form \<Rightarrow> (jsval + unit) \<times> effect list" where
  "handleSubmit invokeReply insertReply f =
     (case studentInfo f of
        None \<Rightarrow> (Inr (), [PreventDefault, ShowToast StudentNotFoundToast])
      | Some si \<Rightarrow>
          if subject f = [] \<or> category f = [] \<or> trim (feedbackText f) = []
          then (Inr (), [PreventDefault, ShowToast MissingFieldsToast])
          else (case submitTry invokeReply insertReply si f of
                  (Inr u, es) \<Rightarrow>
                    (Inr (), [PreventDefault, SetIsSubmitting True] @ es @ [SetIsSubmitting False])
                | (Inl e, es) \<Rightarrow>
                    (Inr (), [PreventDefault, SetIsSubmitting True] @ es
                       @ [ConsoleError ''Error submitting feedback:'' e,
                          ShowToast SubmissionFailedToast, SetIsSubmitting False])))"

text \<open>Projections of an effect trace.\<close>

fun toasts :: "effect list \<Rightarrow> toast list" where
  "toasts [] = []"
| "toasts (ShowToast t # es) = t # toasts es"
| "toasts (e # es) = toasts es"

fun classifier_calls :: "effect list \<Rightarrow> string list" where
  "classifier_calls [] = []"
| "classifier_calls (InvokeAnalyzeSentiment t # es) = t # classifier_calls es"
| "classifier_calls (e # es) = classifier_calls es"

fun store_calls :: "effect list \<Rightarrow> feedback_row list" where
  "store_calls [] = []"
| "store_calls (InsertFeedback r # es) = r # store_calls es"
| "store_calls (e # es) = store_calls es"

text \<open>The remote calls of a trace, in the order they were issued.\<close>

fun is_remote_call :: "effect \<Rightarrow> bool" where
  "is_remote_call (InvokeAnalyzeSentiment t) = True"
| "is_remote_call (InsertFeedback r) = True"
| "is_remote_call e = False"

definition remote_calls :: "effect list \<Rightarrow> effect list" where
  "remote_calls es = filter is_remote_call es"

text \<open>The two guards of lines 100 and 109 let the form through.\<close>

definition accepted :: "form \<Rightarrow> bool" where
  "accepted f \<longleftrightarrow>
     studentInfo f \<noteq> None \<and> subject f \<noteq> [] \<and> category f \<noteq> [] \<and> trim (feedbackText f) \<noteq> []"

text \<open>The three labels of the spec, as the strings the source uses.\<close>

definition labels :: "jsval set" where
  "labels = {JStr ''Positive'', JStr ''Neutral'', JStr ''Negative''}"

text \<open>The two ways a remote call fails: the promise rejects, or its \<^verbatim>\<open>error\<close> is set.\<close>

fun invoke_failed :: "invoke_outcome \<Rightarrow> bool" where
  "invoke_failed (InvokeRejected e) = True"
| "invoke_failed (InvokeResolved data err) = truthy err"

fun insert_failed :: "insert_outcome \<Rightarrow> bool" where
  "insert_failed (InsertRejected e) = True"
| "insert_failed (InsertResolved err) = truthy err"

section \<open>Sample data\<close>

text \<open>A resolved student and a filled-in form, for the concrete runs below.\<close>

definition sampleStudent :: StudentInfo where
  "sampleStudent = \<lparr> info_id = ''s-17'', branch = ''CSE'', semester = 5 \<rparr>"

definition sampleForm :: "string \<Rightarrow> form" where
  "sampleForm body =
     \<lparr> studentInfo = Some sampleStudent, subject = ''Physics'', category = ''General'',
       feedbackText = body \<rparr>"

definition longBody :: string where
  "longBody = replicate 1001 (CHR ''a'')"

section \<open>Substring search\<close>

lemma starts_with_iff: "starts_with t k \<longleftrightarrow> (\<exists>s. t = k @ s)"
  by (induction t k rule: starts_with.induct) auto

lemma str_includes_iff: "str_includes t k \<longleftrightarrow> occurs_in k t"
proof (induction t)
  case Nil
  then show ?case by (simp add: occurs_in_def)
next
  case (Cons c cs)
  have "occurs_in k (c # cs) \<longleftrightarrow> (\<exists>s. c # cs = k @ s) \<or> occurs_in k cs"
  proof
    assume "occurs_in k (c # cs)"
    then obtain p s where ps: "c # cs = p @ k @ s" by (auto simp: occurs_in_def)
    show "(\<exists>s. c # cs = k @ s) \<or> occurs_in k cs"
    proof (cases p)
      case Nil
      with ps show ?thesis by auto
    next
      case (Cons a p')
      with ps have "cs = p' @ k @ s" by simp
      then show ?thesis by (auto simp: occurs_in_def)
    qed
  next
    assume "(\<exists>s. c # cs = k @ s) \<or> occurs_in k cs"
    then show "occurs_in k (c # cs)"
    proof
      assume "\<exists>s. c # cs = k @ s"
      then obtain s where "c # cs = [] @ k @ s" by auto
      then show ?thesis unfolding occurs_in_def by blast
    next
      assume "occurs_in k cs"
      then obtain p s where "cs = p @ k @ s" by (auto simp: occurs_in_def)
      then have "c # cs = (c # p) @ k @ s" by simp
      then show ?thesis unfolding occurs_in_def by blast
    qed
  qed
  with Cons show ?case by (simp add: starts_with_iff)
qed

section \<open>Trimming\<close>

lemma all_dropWhile: "(\<forall>x \<in> set (dropWhile P s). P x) \<longleftrightarrow> (\<forall>x \<in> set s. P x)"
  by (induction s) auto

lemma trim_empty_iff: "trim s = [] \<longleftrightarrow> (\<forall>c \<in> set s. isWhiteSpace c)"
  by (simp add: trim_def all_dropWhile)

section \<open>Facts about the two functions\<close>

lemma analyzeSentiment_returns: "\<exists>v. fst (analyzeSentiment r text) = Inr v"
  by (simp add: analyzeSentiment_def split: sum.split)

lemma analyzeSentiment_failed:
  "invoke_failed r \<Longrightarrow> fst (analyzeSentiment r text) = Inr (JStr (keywordFallback text))"
  by (cases r) (simp_all add: analyzeSentiment_def analyzeTry_def)

lemma analyzeSentiment_truthy: "fst (analyzeSentiment r text) = Inr v \<Longrightarrow> truthy v"
  by (auto simp: analyzeSentiment_def analyzeTry_def keywordFallback_def Let_def
      split: sum.splits invoke_outcome.splits if_splits)

lemma analyzeSentiment_label_cases:
  assumes "fst (analyzeSentiment r text) = Inr v"
  shows "v \<in> labels
     \<or> (\<exists>data err. r = InvokeResolved data err \<and> \<not> truthy err
           \<and> getProp data ''sentiment'' = Inr v)"
proof (cases "analyzeTry r")
  case (Inl e)
  with assms have "v = JStr (keywordFallback text)"
    by (simp add: analyzeSentiment_def)
  then show ?thesis by (simp add: labels_def keywordFallback_def Let_def)
next
  case (Inr w)
  with assms have "w = v" by (simp add: analyzeSentiment_def)
  with Inr obtain data err s where "r = InvokeResolved data err" and "\<not> truthy err"
    and "getProp data ''sentiment'' = Inr s"
    and "v = (if truthy s then s else JStr ''Neutral'')"
    by (auto simp: analyzeTry_def split: invoke_outcome.splits if_splits sum.splits)
  then show ?thesis by (cases "truthy s") (auto simp: labels_def)
qed

lemma handleSubmit_completes: "fst (handleSubmit r ins f) = Inr ()"
  by (simp add: handleSubmit_def split: option.split prod.split sum.split)

lemma handleSubmit_not_accepted:
  "\<not> accepted f \<Longrightarrow>
   snd (handleSubmit r ins f) =
     [PreventDefault,
      ShowToast (if studentInfo f = None then StudentNotFoundToast else MissingFieldsToast)]"
  by (auto simp: handleSubmit_def accepted_def split: option.split)

lemma handleSubmit_accepted:
  assumes "accepted f" and "studentInfo f = Some si"
    and "fst (analyzeSentiment r (feedbackText f)) = Inr s"
  shows "toasts (snd (handleSubmit r ins f)) =
           [if insert_failed ins \<or> toStringThrows s
            then SubmissionFailedToast else FeedbackSubmittedToast s]"
    and "remote_calls (snd (handleSubmit r ins f)) =
           [InvokeAnalyzeSentiment (feedbackText f), InsertFeedback (feedbackRow si f s)]"
    and "classifier_calls (snd (handleSubmit r ins f)) = [feedbackText f]"
    and "store_calls (snd (handleSubmit r ins f)) = [feedbackRow si f s]"
    and "last (snd (handleSubmit r ins f)) = SetIsSubmitting False"
    and "\<not> insert_failed ins \<Longrightarrow> \<not> toStringThrows s \<Longrightarrow>
           Navigate ''/student'' \<in> set (snd (handleSubmit r ins f))"
    and "\<exists>post. snd (handleSubmit r ins f) =
           [PreventDefault, SetIsSubmitting True] @ snd (analyzeSentiment r (feedbackText f))
             @ InsertFeedback (feedbackRow si f s) # post"
  using assms
  by (auto simp: handleSubmit_def submitTry_def accepted_def analyzeSentiment_def Let_def
      remote_calls_def split: sum.splits insert_outcome.splits prod.splits)

lemma sampleForm_accepted: "\<not> isWhiteSpace c \<Longrightarrow> c \<in> set body \<Longrightarrow> accepted (sampleForm body)"
  by (auto simp: accepted_def sampleForm_def trim_empty_iff)

section \<open>The fallback classifier\<close>

text \<open>
  C1. On the lower-cased text the fallback answers Positive when one of excellent, great,
  good, helpful, amazing occurs in it; otherwise Negative when one of bad, poor, terrible,
  worst, disappointed occurs; otherwise Neutral. In particular a text holding a keyword of
  each set is Positive.
\<close>

theorem keywordFallback_spec:
  "keywordFallback text =
     (if \<exists>k \<in> {''excellent'', ''great'', ''good'', ''helpful'', ''amazing''}.
           occurs_in k (toLowerCase text)
      then ''Positive''
      else if \<exists>k \<in> {''bad'', ''poor'', ''terrible'', ''worst'', ''disappointed''}.
           occurs_in k (toLowerCase text)
      then ''Negative''
      else ''Neutral'')
   \<and> (\<forall>p \<in> {''excellent'', ''great'', ''good'', ''helpful'', ''amazing''}.
       \<forall>n \<in> {''bad'', ''poor'', ''terrible'', ''worst'', ''disappointed''}.
         occurs_in p (toLowerCase text) \<and> occurs_in n (toLowerCase text)
           \<longrightarrow> keywordFallback text = ''Positive'')"
  unfolding keywordFallback_def Let_def str_includes_iff by simp

text \<open>
  C1, a run of the theorem on 'Great but TERRIBLE'.
\<close>

theorem keywordFallback_spec_witness:
  "occurs_in ''great'' (toLowerCase ''Great but TERRIBLE'')
   \<and> occurs_in ''terrible'' (toLowerCase ''Great but TERRIBLE'')
   \<and> keywordFallback ''Great but TERRIBLE'' = ''Positive''"
proof -
  have low: "toLowerCase ''Great but TERRIBLE'' = ''great but terrible''"
    by code_simp
  have p: "occurs_in ''great'' (toLowerCase ''Great but TERRIBLE'')"
    unfolding low str_includes_iff [symmetric] by simp
  have n: "occurs_in ''terrible'' (toLowerCase ''Great but TERRIBLE'')"
    unfolding low str_includes_iff [symmetric] by simp
  from keywordFallback_spec [of "''Great but TERRIBLE''"] p n
  have "keywordFallback ''Great but TERRIBLE'' = ''Positive''" by blast
  with p n show ?thesis by simp
qed

section \<open>Classification\<close>

text \<open>
  C2 (as the code has it). For every text and every reply of the remote classifier,
  \<^verbatim>\<open>analyzeSentiment\<close> returns a non-empty value and throws nothing to its caller.
  The value is one of Positive, Neutral, Negative, unless the call succeeded with a
  non-empty sentiment, which is then returned as it came, whatever it is.
\<close>

theorem analyzeSentiment_total:
  "\<exists>v. fst (analyzeSentiment r text) = Inr v \<and> truthy v
       \<and> (v \<in> labels
           \<or> (\<exists>data err. r = InvokeResolved data err \<and> \<not> truthy err
                 \<and> getProp data ''sentiment'' = Inr v))"
proof (cases "analyzeTry r")
  case (Inl e)
  then have "fst (analyzeSentiment r text) = Inr (JStr (keywordFallback text))"
    by (simp add: analyzeSentiment_def)
  moreover have "JStr (keywordFallback text) \<in> labels"
    by (simp add: labels_def keywordFallback_def Let_def)
  moreover have "truthy (JStr (keywordFallback text))"
    by (simp add: keywordFallback_def Let_def)
  ultimately show ?thesis by blast
next
  case (Inr v)
  then have res: "fst (analyzeSentiment r text) = Inr v"
    by (simp add: analyzeSentiment_def)
  then have tv: "truthy v" by (rule analyzeSentiment_truthy)
  from Inr obtain data err s where r: "r = InvokeResolved data err" and err: "\<not> truthy err"
    and s: "getProp data ''sentiment'' = Inr s" and v: "v = (if truthy s then s else JStr ''Neutral'')"
    by (auto simp: analyzeTry_def split: invoke_outcome.splits if_splits sum.splits)
  show ?thesis
  proof (cases "truthy s")
    case True
    with r err s v res tv show ?thesis by auto
  next
    case False
    with v have "v \<in> labels" by (simp add: labels_def)
    with res tv show ?thesis by blast
  qed
qed

text \<open>
  C2, a run of the theorem: a rejected call on a text without keywords gives Neutral.
\<close>

theorem analyzeSentiment_total_witness:
  "fst (analyzeSentiment (InvokeRejected JNull) ''it was fine'') = Inr (JStr ''Neutral'')
   \<and> truthy (JStr ''Neutral'') \<and> JStr ''Neutral'' \<in> labels"
proof -
  have "fst (analyzeSentiment (InvokeRejected JNull) ''it was fine'') = Inr (JStr ''Neutral'')"
    by code_simp
  with analyzeSentiment_total [of "InvokeRejected JNull" "''it was fine''"]
  show ?thesis by auto
qed

text \<open>
  C2 as stated fails: a successful reply carrying the sentiment 'Happy' is returned
  unchanged, and 'Happy' is none of the three labels.
\<close>

theorem analyzeSentiment_label_counterexample:
  "fst (analyzeSentiment (InvokeResolved (JObj [(''sentiment'', JStr ''Happy'')]) JNull)
          ''it was fine'') = Inr (JStr ''Happy'')
   \<and> JStr ''Happy'' \<notin> labels"
  by (simp add: analyzeSentiment_def analyzeTry_def labels_def)

text \<open>
  C3 (as the code has it). When the call succeeds and the payload's sentiment is empty or
  absent (any falsy value), the result is Neutral; a non-empty sentiment is returned
  unchanged, recognized or not; a payload that is itself \<^verbatim>\<open>null\<close> or
  \<^verbatim>\<open>undefined\<close> makes the property read throw, and the result is the keyword fallback's.
\<close>

theorem analyzeSentiment_resolved:
  "(\<not> truthy err \<and> getProp data ''sentiment'' = Inr s \<and> \<not> truthy s
      \<longrightarrow> fst (analyzeSentiment (InvokeResolved data err) text) = Inr (JStr ''Neutral''))
   \<and> (\<not> truthy err \<and> getProp data ''sentiment'' = Inr s \<and> truthy s
      \<longrightarrow> fst (analyzeSentiment (InvokeResolved data err) text) = Inr s)
   \<and> (\<not> truthy err \<and> data \<in> {JNull, JUndefined}
      \<longrightarrow> fst (analyzeSentiment (InvokeResolved data err) text)
            = Inr (JStr (keywordFallback text)))"
  by (auto simp: analyzeSentiment_def analyzeTry_def)

text \<open>
  C3, three runs of the theorem on the text 'great': an empty sentiment gives Neutral,
  'Happy' stays 'Happy', and a \<^verbatim>\<open>null\<close> payload gives the fallback's Positive.
\<close>

theorem analyzeSentiment_resolved_witness:
  "\<not> truthy JNull \<and> getProp (JObj [(''sentiment'', JStr [])]) ''sentiment'' = Inr (JStr [])
   \<and> \<not> truthy (JStr [])
   \<and> fst (analyzeSentiment (InvokeResolved (JObj [(''sentiment'', JStr [])]) JNull) ''great'')
       = Inr (JStr ''Neutral'')
   \<and> getProp (JObj [(''sentiment'', JStr ''Happy'')]) ''sentiment'' = Inr (JStr ''Happy'')
   \<and> truthy (JStr ''Happy'')
   \<and> fst (analyzeSentiment (InvokeResolved (JObj [(''sentiment'', JStr ''Happy'')]) JNull) ''great'')
       = Inr (JStr ''Happy'')
   \<and> fst (analyzeSentiment (InvokeResolved JNull JNull) ''great'') = Inr (JStr ''Positive'')"
proof -
  have kf: "keywordFallback ''great'' = ''Positive''" by code_simp
  from analyzeSentiment_resolved
         [of JNull "JObj [(''sentiment'', JStr [])]" "JStr []" "''great''"]
       analyzeSentiment_resolved
         [of JNull "JObj [(''sentiment'', JStr ''Happy'')]" "JStr ''Happy''" "''great''"]
       analyzeSentiment_resolved [of JNull JNull JNull "''great''"] kf
  show ?thesis by simp
qed

text \<open>
  C3 as stated fails: the call succeeds, its sentiment 'Happy' is outside the three labels,
  and the result is not Neutral.
\<close>

theorem analyzeSentiment_unrecognized_counterexample:
  "\<not> invoke_failed (InvokeResolved (JObj [(''sentiment'', JStr ''Happy'')]) JNull)
   \<and> getProp (JObj [(''sentiment'', JStr ''Happy'')]) ''sentiment'' = Inr (JStr ''Happy'')
   \<and> JStr ''Happy'' \<notin> labels
   \<and> fst (analyzeSentiment (InvokeResolved (JObj [(''sentiment'', JStr ''Happy'')]) JNull)
            ''it was fine'') \<noteq> Inr (JStr ''Neutral'')"
  by (simp add: analyzeSentiment_def analyzeTry_def labels_def)

text \<open>
  C4. When the remote call fails (the promise rejects, which is how a thrown error or a
  time-out of the transport arrives, or the reply carries an error), the result is exactly
  the keyword fallback's label for that text, nothing is thrown, the handler completes
  normally, and an accepted form whose insert succeeds is reported as submitted with that
  label.
\<close>

theorem classifier_failure_absorbed:
  "invoke_failed r \<Longrightarrow>
     fst (analyzeSentiment r text) = Inr (JStr (keywordFallback text))
     \<and> fst (handleSubmit r ins f) = Inr ()
     \<and> (accepted f \<and> \<not> insert_failed ins \<longrightarrow>
          toasts (snd (handleSubmit r ins f))
            = [FeedbackSubmittedToast (JStr (keywordFallback (feedbackText f)))])"
proof (intro conjI impI)
  assume failed: "invoke_failed r"
  then show "fst (analyzeSentiment r text) = Inr (JStr (keywordFallback text))"
    by (rule analyzeSentiment_failed)
  show "fst (handleSubmit r ins f) = Inr ()"
    by (rule handleSubmit_completes)
  assume ok: "accepted f \<and> \<not> insert_failed ins"
  then obtain si where si: "studentInfo f = Some si"
    by (auto simp: accepted_def)
  from failed have "fst (analyzeSentiment r (feedbackText f))
      = Inr (JStr (keywordFallback (feedbackText f)))"
    by (rule analyzeSentiment_failed)
  with ok si show "toasts (snd (handleSubmit r ins f))
      = [FeedbackSubmittedToast (JStr (keywordFallback (feedbackText f)))]"
    by (simp add: handleSubmit_accepted(1))
qed

text \<open>
  C4, a run of the theorem: the fetch fails, the text holds 'great' and 'terrible', and the
  submission goes through as Positive.
\<close>

theorem classifier_failure_absorbed_witness:
  "invoke_failed (InvokeRejected (JStr ''Failed to fetch''))
   \<and> accepted (sampleForm ''Great but TERRIBLE'') \<and> \<not> insert_failed (InsertResolved JNull)
   \<and> fst (analyzeSentiment (InvokeRejected (JStr ''Failed to fetch'')) ''Great but TERRIBLE'')
       = Inr (JStr ''Positive'')
   \<and> fst (handleSubmit (InvokeRejected (JStr ''Failed to fetch'')) (InsertResolved JNull)
            (sampleForm ''Great but TERRIBLE'')) = Inr ()
   \<and> toasts (snd (handleSubmit (InvokeRejected (JStr ''Failed to fetch''))
                    (InsertResolved JNull) (sampleForm ''Great but TERRIBLE'')))
       = [FeedbackSubmittedToast (JStr ''Positive'')]"
proof -
  have kf: "keywordFallback ''Great but TERRIBLE'' = ''Positive''" by code_simp
  have acc: "accepted (sampleForm ''Great but TERRIBLE'')"
    by (rule sampleForm_accepted [of "CHR ''G''"]) (simp_all add: isWhiteSpace_def)
  have fb: "feedbackText (sampleForm ''Great but TERRIBLE'') = ''Great but TERRIBLE''"
    by (simp add: sampleForm_def)
  have failed: "invoke_failed (InvokeRejected (JStr ''Failed to fetch''))" by simp
  from classifier_failure_absorbed [OF failed, of "''Great but TERRIBLE''"
         "InsertResolved JNull" "sampleForm ''Great but TERRIBLE''"] acc kf fb
  show ?thesis by simp
qed

section \<open>Submission\<close>

text \<open>
  C5. Without a resolved student the handler only shows the 'Student information not found'
  toast; with a student but an empty subject, an empty category or a body that is empty
  after trimming it only shows the 'Missing Fields' toast. In both cases the whole trace
  is \<^verbatim>\<open>preventDefault\<close> and the toast: no classifier call and no insert.
\<close>

theorem validation_fail_fast:
  "(studentInfo f = None \<longrightarrow>
      snd (handleSubmit r ins f) = [PreventDefault, ShowToast StudentNotFoundToast])
   \<and> (studentInfo f \<noteq> None
        \<and> (subject f = [] \<or> category f = [] \<or> trim (feedbackText f) = []) \<longrightarrow>
      snd (handleSubmit r ins f) = [PreventDefault, ShowToast MissingFieldsToast])
   \<and> (\<not> accepted f \<longrightarrow>
      length (classifier_calls (snd (handleSubmit r ins f))) = 0
      \<and> length (store_calls (snd (handleSubmit r ins f))) = 0)"
  by (auto simp: handleSubmit_not_accepted accepted_def)

text \<open>
  C5, two runs of the theorem: a form without a student, and a form whose body is two
  spaces.
\<close>

theorem validation_fail_fast_witness:
  "studentInfo ((sampleForm ''good'') \<lparr> studentInfo := None \<rparr>) = None
   \<and> snd (handleSubmit (InvokeRejected JNull) (InsertResolved JNull)
            ((sampleForm ''good'') \<lparr> studentInfo := None \<rparr>))
       = [PreventDefault, ShowToast StudentNotFoundToast]
   \<and> studentInfo (sampleForm ''  '') \<noteq> None \<and> trim (feedbackText (sampleForm ''  '')) = []
   \<and> \<not> accepted (sampleForm ''  '')
   \<and> snd (handleSubmit (InvokeRejected JNull) (InsertResolved JNull) (sampleForm ''  ''))
       = [PreventDefault, ShowToast MissingFieldsToast]
   \<and> length (classifier_calls
        (snd (handleSubmit (InvokeRejected JNull) (InsertResolved JNull) (sampleForm ''  '')))) = 0
   \<and> length (store_calls
        (snd (handleSubmit (InvokeRejected JNull) (InsertResolved JNull) (sampleForm ''  '')))) = 0"
proof -
  have a: "studentInfo ((sampleForm ''good'') \<lparr> studentInfo := None \<rparr>) = None" by simp
  have b: "studentInfo (sampleForm ''  '') \<noteq> None" by (simp add: sampleForm_def)
  have c: "trim (feedbackText (sampleForm ''  '')) = []"
    by (simp add: sampleForm_def trim_def isWhiteSpace_def)
  from c have d: "\<not> accepted (sampleForm ''  '')" by (simp add: accepted_def)
  from validation_fail_fast [of "(sampleForm ''good'') \<lparr> studentInfo := None \<rparr>"
         "InvokeRejected JNull" "InsertResolved JNull"]
       validation_fail_fast [of "sampleForm ''  ''" "InvokeRejected JNull" "InsertResolved JNull"]
       a b c d
  show ?thesis by simp
qed




text \<open>
  C7 (as the code has it). In every run of the handler the remote calls are either none,
  or one classifier call followed by one insert; \<^verbatim>\<open>analyzeSentiment\<close> has run to its end
  before the insert is issued; and every inserted row carries the non-empty value it
  returned, which is one of the three labels unless the call succeeded with a non-empty
  sentiment, attached as it came.
\<close>

theorem classify_before_persist:
  "\<exists>label. fst (analyzeSentiment r (feedbackText f)) = Inr label \<and> truthy label
     \<and> (label \<in> labels
         \<or> (\<exists>data err. r = InvokeResolved data err \<and> \<not> truthy err
               \<and> getProp data ''sentiment'' = Inr label))
     \<and> (remote_calls (snd (handleSubmit r ins f)) = []
         \<or> (\<exists>si post. studentInfo f = Some si
               \<and> remote_calls (snd (handleSubmit r ins f)) =
                   [InvokeAnalyzeSentiment (feedbackText f), InsertFeedback (feedbackRow si f label)]
               \<and> snd (handleSubmit r ins f) =
                   [PreventDefault, SetIsSubmitting True]
                     @ snd (analyzeSentiment r (feedbackText f))
                     @ InsertFeedback (feedbackRow si f label) # post))
     \<and> length (classifier_calls (snd (handleSubmit r ins f))) \<le> 1
     \<and> length (store_calls (snd (handleSubmit r ins f))) \<le> 1
     \<and> (\<forall>row \<in> set (store_calls (snd (handleSubmit r ins f))). sentiment row = label)"
proof -
  obtain label where l: "fst (analyzeSentiment r (feedbackText f)) = Inr label"
    using analyzeSentiment_returns by blast
  then have t: "truthy label" by (rule analyzeSentiment_truthy)
  from l have lc: "label \<in> labels
         \<or> (\<exists>data err. r = InvokeResolved data err \<and> \<not> truthy err
               \<and> getProp data ''sentiment'' = Inr label)"
    by (rule analyzeSentiment_label_cases)
  show ?thesis
  proof (cases "accepted f")
    case False
    then have "snd (handleSubmit r ins f) =
      [PreventDefault,
       ShowToast (if studentInfo f = None then StudentNotFoundToast else MissingFieldsToast)]"
      by (rule handleSubmit_not_accepted)
    then have "remote_calls (snd (handleSubmit r ins f)) = []"
      and "classifier_calls (snd (handleSubmit r ins f)) = []"
      and "store_calls (snd (handleSubmit r ins f)) = []"
      by (simp_all add: remote_calls_def)
    with l t lc show ?thesis by simp
  next
    case True
    then obtain si where si: "studentInfo f = Some si" by (auto simp: accepted_def)
    note h = handleSubmit_accepted [OF True si l, of ins]
    from h(7) obtain post where "snd (handleSubmit r ins f) =
           [PreventDefault, SetIsSubmitting True] @ snd (analyzeSentiment r (feedbackText f))
             @ InsertFeedback (feedbackRow si f label) # post" ..
    with si h(2) have "\<exists>si post. studentInfo f = Some si
               \<and> remote_calls (snd (handleSubmit r ins f)) =
                   [InvokeAnalyzeSentiment (feedbackText f), InsertFeedback (feedbackRow si f label)]
               \<and> snd (handleSubmit r ins f) =
                   [PreventDefault, SetIsSubmitting True]
                     @ snd (analyzeSentiment r (feedbackText f))
                     @ InsertFeedback (feedbackRow si f label) # post" by blast
    moreover have "length (classifier_calls (snd (handleSubmit r ins f))) \<le> 1"
      by (simp add: h(3))
    moreover have "length (store_calls (snd (handleSubmit r ins f))) \<le> 1"
      by (simp add: h(4))
    moreover have "\<forall>row \<in> set (store_calls (snd (handleSubmit r ins f))). sentiment row = label"
      by (simp add: h(4) feedbackRow_def)
    ultimately show ?thesis using l t lc by blast
  qed
qed

text \<open>
  C7, a run of the theorem: both remote calls reject, and the row was still built with
  the fallback's label before the insert was tried.
\<close>

theorem classify_before_persist_witness:
  "remote_calls (snd (handleSubmit (InvokeRejected JNull) (InsertRejected JNull)
                        (sampleForm ''poor labs''))) =
     [InvokeAnalyzeSentiment ''poor labs'',
      InsertFeedback (feedbackRow sampleStudent (sampleForm ''poor labs'') (JStr ''Negative''))]
   \<and> map sentiment (store_calls (snd (handleSubmit (InvokeRejected JNull) (InsertRejected JNull)
                        (sampleForm ''poor labs'')))) = [JStr ''Negative'']"
proof -
  have kf: "keywordFallback ''poor labs'' = ''Negative''" by code_simp
  have l: "fst (analyzeSentiment (InvokeRejected JNull) (feedbackText (sampleForm ''poor labs'')))
           = Inr (JStr ''Negative'')"
    by (simp add: analyzeSentiment_def analyzeTry_def sampleForm_def kf)
  have acc: "accepted (sampleForm ''poor labs'')"
    by (rule sampleForm_accepted [of "CHR ''p''"]) (simp_all add: isWhiteSpace_def)
  have calls: "remote_calls (snd (handleSubmit (InvokeRejected JNull) (InsertRejected JNull)
                        (sampleForm ''poor labs''))) \<noteq> []"
    using handleSubmit_accepted(2) [OF acc _ l, of sampleStudent "InsertRejected JNull"]
    by (simp add: sampleForm_def)
  have stored: "store_calls (snd (handleSubmit (InvokeRejected JNull) (InsertRejected JNull)
                        (sampleForm ''poor labs''))) =
      [feedbackRow sampleStudent (sampleForm ''poor labs'') (JStr ''Negative'')]"
    using handleSubmit_accepted(4) [OF acc _ l, of sampleStudent "InsertRejected JNull"]
    by (simp add: sampleForm_def)
  have row: "sentiment (feedbackRow sampleStudent (sampleForm ''poor labs'') (JStr ''Negative''))
      = JStr ''Negative''"
    by (simp add: feedbackRow_def)
  have si: "studentInfo (sampleForm ''poor labs'') = Some sampleStudent"
    and fb: "feedbackText (sampleForm ''poor labs'') = ''poor labs''"
    by (simp_all add: sampleForm_def)
  from classify_before_persist [of "InvokeRejected JNull" "sampleForm ''poor labs''"
         "InsertRejected JNull"] l calls
  have "remote_calls (snd (handleSubmit (InvokeRejected JNull) (InsertRejected JNull)
                        (sampleForm ''poor labs''))) =
     [InvokeAnalyzeSentiment ''poor labs'',
      InsertFeedback (feedbackRow sampleStudent (sampleForm ''poor labs'') (JStr ''Negative''))]"
    unfolding si fb by auto
  with stored row show ?thesis by simp
qed

text \<open>
  C7 as stated fails: the call succeeds with the sentiment 'Happy', and the row handed to
  the store carries 'Happy', which is none of the three labels.
\<close>

theorem classify_before_persist_counterexample:
  "map sentiment (store_calls (snd (handleSubmit
        (InvokeResolved (JObj [(''sentiment'', JStr ''Happy'')]) JNull)
        (InsertResolved JNull) (sampleForm ''it was fine'')))) = [JStr ''Happy'']
   \<and> JStr ''Happy'' \<notin> labels"
proof -
  have acc: "accepted (sampleForm ''it was fine'')"
    by (rule sampleForm_accepted [of "CHR ''i''"]) (simp_all add: isWhiteSpace_def)
  have l: "fst (analyzeSentiment (InvokeResolved (JObj [(''sentiment'', JStr ''Happy'')]) JNull)
             (feedbackText (sampleForm ''it was fine''))) = Inr (JStr ''Happy'')"
    by (simp add: analyzeSentiment_def analyzeTry_def)
  have "store_calls (snd (handleSubmit
        (InvokeResolved (JObj [(''sentiment'', JStr ''Happy'')]) JNull)
        (InsertResolved JNull) (sampleForm ''it was fine''))) =
      [feedbackRow sampleStudent (sampleForm ''it was fine'') (JStr ''Happy'')]"
    using handleSubmit_accepted(4) [OF acc _ l, of sampleStudent "InsertResolved JNull"]
    by (simp add: sampleForm_def)
  then show ?thesis by (simp add: feedbackRow_def labels_def)
qed

text \<open>
  C8. For an accepted form, whatever way the insert fails (the promise rejects, or the
  reply carries any truthy error), the handler shows 'Submission Failed', has made one
  classifier call and one insert attempt and no more, and ends by re-enabling the form.
  The handler keeps nothing between runs, so running it again on the same form, with any
  replies, makes one classifier call on the same body and one insert attempt again.
\<close>

theorem persistence_failure:
  "accepted f \<Longrightarrow> insert_failed ins \<Longrightarrow>
     fst (handleSubmit r ins f) = Inr ()
     \<and> toasts (snd (handleSubmit r ins f)) = [SubmissionFailedToast]
     \<and> length (classifier_calls (snd (handleSubmit r ins f))) = 1
     \<and> length (store_calls (snd (handleSubmit r ins f))) = 1
     \<and> last (snd (handleSubmit r ins f)) = SetIsSubmitting False
     \<and> (\<forall>r' ins'. classifier_calls (snd (handleSubmit r' ins' f)) = [feedbackText f]
           \<and> length (store_calls (snd (handleSubmit r' ins' f))) = 1)"
proof -
  assume acc: "accepted f" and failed: "insert_failed ins"
  from acc obtain si where si: "studentInfo f = Some si" by (auto simp: accepted_def)
  have again: "classifier_calls (snd (handleSubmit r' ins' f)) = [feedbackText f]
           \<and> length (store_calls (snd (handleSubmit r' ins' f))) = 1" for r' ins'
  proof -
    obtain s where s: "fst (analyzeSentiment r' (feedbackText f)) = Inr s"
      using analyzeSentiment_returns by blast
    show ?thesis
      using handleSubmit_accepted(3,4) [OF acc si s, of ins'] by simp
  qed
  obtain s where s: "fst (analyzeSentiment r (feedbackText f)) = Inr s"
    using analyzeSentiment_returns by blast
  have "toasts (snd (handleSubmit r ins f)) = [SubmissionFailedToast]"
    using handleSubmit_accepted(1) [OF acc si s, of ins] failed by simp
  moreover have "last (snd (handleSubmit r ins f)) = SetIsSubmitting False"
    using handleSubmit_accepted(5) [OF acc si s] .
  ultimately show ?thesis using again [of r ins] again
    by (simp add: handleSubmit_completes)
qed

text \<open>
  C8, two runs of the theorem: a constraint error in the reply, and a rejected promise.
\<close>

theorem persistence_failure_witness:
  "accepted (sampleForm ''good course'')
   \<and> insert_failed (InsertResolved (JObj [(''code'', JStr ''23505'')]))
   \<and> insert_failed (InsertRejected (JStr ''Failed to fetch''))
   \<and> toasts (snd (handleSubmit (InvokeRejected JNull)
                (InsertResolved (JObj [(''code'', JStr ''23505'')])) (sampleForm ''good course'')))
       = [SubmissionFailedToast]
   \<and> toasts (snd (handleSubmit (InvokeRejected JNull)
                (InsertRejected (JStr ''Failed to fetch'')) (sampleForm ''good course'')))
       = [SubmissionFailedToast]
   \<and> classifier_calls (snd (handleSubmit (InvokeRejected JNull) (InsertResolved JNull)
                (sampleForm ''good course''))) = [''good course'']
   \<and> length (store_calls (snd (handleSubmit (InvokeRejected JNull) (InsertResolved JNull)
                (sampleForm ''good course'')))) = 1"
proof -
  have acc: "accepted (sampleForm ''good course'')"
    by (rule sampleForm_accepted [of "CHR ''g''"]) (simp_all add: isWhiteSpace_def)
  have f1: "insert_failed (InsertResolved (JObj [(''code'', JStr ''23505'')]))" by simp
  have f2: "insert_failed (InsertRejected (JStr ''Failed to fetch''))" by simp
  have fb: "feedbackText (sampleForm ''good course'') = ''good course''"
    by (simp add: sampleForm_def)
  from persistence_failure [OF acc f1, of "InvokeRejected JNull"]
       persistence_failure [OF acc f2, of "InvokeRejected JNull"] acc f1 f2 fb
  show ?thesis by simp
qed

text \<open>
  C9. No length is checked: for every accepted form, hence every body that is non-empty
  after trimming, however long, neither validation toast is shown, the body is classified
  and handed to the store, and 'Submission Failed' is shown only when the insert failed or
  the label returned by the classification cannot be converted to a string.
\<close>

theorem no_length_limit:
  "accepted f \<Longrightarrow>
     MissingFieldsToast \<notin> set (toasts (snd (handleSubmit r ins f)))
     \<and> StudentNotFoundToast \<notin> set (toasts (snd (handleSubmit r ins f)))
     \<and> (\<exists>label. fst (analyzeSentiment r (feedbackText f)) = Inr label
          \<and> (SubmissionFailedToast \<in> set (toasts (snd (handleSubmit r ins f)))
                \<longleftrightarrow> insert_failed ins \<or> toStringThrows label))
     \<and> classifier_calls (snd (handleSubmit r ins f)) = [feedbackText f]
     \<and> map feedback_text (store_calls (snd (handleSubmit r ins f))) = [feedbackText f]"
proof -
  assume acc: "accepted f"
  then obtain si where si: "studentInfo f = Some si" by (auto simp: accepted_def)
  obtain s where s: "fst (analyzeSentiment r (feedbackText f)) = Inr s"
    using analyzeSentiment_returns by blast
  note h = handleSubmit_accepted [OF acc si s, of ins]
  have "SubmissionFailedToast \<in> set (toasts (snd (handleSubmit r ins f)))
          \<longleftrightarrow> insert_failed ins \<or> toStringThrows s"
    by (simp add: h(1))
  with s have "\<exists>label. fst (analyzeSentiment r (feedbackText f)) = Inr label
          \<and> (SubmissionFailedToast \<in> set (toasts (snd (handleSubmit r ins f)))
                \<longleftrightarrow> insert_failed ins \<or> toStringThrows label)"
    by blast
  then show ?thesis by (simp add: h(1) h(3) h(4) feedbackRow_def)
qed

text \<open>
  C9, a run of the theorem on a body of 1001 characters.
\<close>

theorem no_length_limit_witness:
  "accepted (sampleForm longBody) \<and> 1000 < length (feedbackText (sampleForm longBody))
   \<and> toasts (snd (handleSubmit (InvokeResolved (JObj [(''sentiment'', JStr ''Neutral'')]) JNull)
                (InsertResolved JNull) (sampleForm longBody)))
       = [FeedbackSubmittedToast (JStr ''Neutral'')]
   \<and> classifier_calls (snd (handleSubmit
         (InvokeResolved (JObj [(''sentiment'', JStr ''Neutral'')]) JNull)
         (InsertResolved JNull) (sampleForm longBody))) = [longBody]
   \<and> map feedback_text (store_calls (snd (handleSubmit
         (InvokeResolved (JObj [(''sentiment'', JStr ''Neutral'')]) JNull)
         (InsertResolved JNull) (sampleForm longBody)))) = [longBody]"
proof -
  have acc: "accepted (sampleForm longBody)"
    by (rule sampleForm_accepted [of "CHR ''a''"]) (simp_all add: isWhiteSpace_def longBody_def)
  have len: "1000 < length (feedbackText (sampleForm longBody))"
    by (simp add: sampleForm_def longBody_def)
  have fb: "feedbackText (sampleForm longBody) = longBody" by (simp add: sampleForm_def)
  have s: "fst (analyzeSentiment (InvokeResolved (JObj [(''sentiment'', JStr ''Neutral'')]) JNull)
             (feedbackText (sampleForm longBody))) = Inr (JStr ''Neutral'')"
    by (simp add: analyzeSentiment_def analyzeTry_def)
  have t: "toasts (snd (handleSubmit (InvokeResolved (JObj [(''sentiment'', JStr ''Neutral'')]) JNull)
                (InsertResolved JNull) (sampleForm longBody)))
       = [FeedbackSubmittedToast (JStr ''Neutral'')]"
    using handleSubmit_accepted(1) [OF acc _ s, of sampleStudent "InsertResolved JNull"]
    by (simp add: sampleForm_def)
  from no_length_limit [OF acc,
         of "InvokeResolved (JObj [(''sentiment'', JStr ''Neutral'')]) JNull" "InsertResolved JNull"]
       acc len fb t
  show ?thesis by simp
qed

text \<open>
  C10. Trimming serves the validation only: for an accepted form the classifier and the
  store both receive the body as typed, untrimmed; a body of white space only is rejected
  with 'Missing Fields' and nothing is stored.
\<close>

theorem body_stored_untrimmed:
  "(accepted f \<longrightarrow>
      map feedback_text (store_calls (snd (handleSubmit r ins f))) = [feedbackText f]
      \<and> classifier_calls (snd (handleSubmit r ins f)) = [feedbackText f])
   \<and> (studentInfo f \<noteq> None \<and> (\<forall>c \<in> set (feedbackText f). isWhiteSpace c) \<longrightarrow>
      toasts (snd (handleSubmit r ins f)) = [MissingFieldsToast]
      \<and> store_calls (snd (handleSubmit r ins f)) = [])"
proof (intro conjI impI)
  assume acc: "accepted f"
  then obtain si where si: "studentInfo f = Some si" by (auto simp: accepted_def)
  obtain s where s: "fst (analyzeSentiment r (feedbackText f)) = Inr s"
    using analyzeSentiment_returns by blast
  note h = handleSubmit_accepted [OF acc si s, of ins]
  show "map feedback_text (store_calls (snd (handleSubmit r ins f))) = [feedbackText f]"
    by (simp add: h(4) feedbackRow_def)
  show "classifier_calls (snd (handleSubmit r ins f)) = [feedbackText f]"
    by (rule h(3))
next
  assume ws: "studentInfo f \<noteq> None \<and> (\<forall>c \<in> set (feedbackText f). isWhiteSpace c)"
  then have "\<not> accepted f" by (simp add: accepted_def trim_empty_iff)
  then have "snd (handleSubmit r ins f) =
      [PreventDefault,
       ShowToast (if studentInfo f = None then StudentNotFoundToast else MissingFieldsToast)]"
    by (rule handleSubmit_not_accepted)
  with ws show "toasts (snd (handleSubmit r ins f)) = [MissingFieldsToast]"
    and "store_calls (snd (handleSubmit r ins f)) = []"
    by simp_all
qed

text \<open>
  C10, two runs of the theorem: a body with spaces on both sides is stored with them, and
  a body of a space, a tab and a line feed is rejected.
\<close>

theorem body_stored_untrimmed_witness:
  "accepted (sampleForm ''  good work  '')
   \<and> trim (feedbackText (sampleForm ''  good work  '')) = ''good work''
   \<and> map feedback_text (store_calls (snd (handleSubmit (InvokeRejected JNull)
        (InsertResolved JNull) (sampleForm ''  good work  '')))) = [''  good work  '']
   \<and> studentInfo (sampleForm [CHR 0x20, CHR 0x09, CHR 0x0A]) \<noteq> None
   \<and> isWhiteSpace (CHR 0x20) \<and> isWhiteSpace (CHR 0x09) \<and> isWhiteSpace (CHR 0x0A)
   \<and> toasts (snd (handleSubmit (InvokeRejected JNull) (InsertResolved JNull)
        (sampleForm [CHR 0x20, CHR 0x09, CHR 0x0A]))) = [MissingFieldsToast]
   \<and> store_calls (snd (handleSubmit (InvokeRejected JNull) (InsertResolved JNull)
        (sampleForm [CHR 0x20, CHR 0x09, CHR 0x0A]))) = []"
proof -
  have acc: "accepted (sampleForm ''  good work  '')"
    by (rule sampleForm_accepted [of "CHR ''g''"]) (simp_all add: isWhiteSpace_def)
  have tr: "trim (feedbackText (sampleForm ''  good work  '')) = ''good work''"
    by (simp add: sampleForm_def trim_def isWhiteSpace_def)
  have fb: "feedbackText (sampleForm ''  good work  '') = ''  good work  ''"
    by (simp add: sampleForm_def)
  have si: "studentInfo (sampleForm [CHR 0x20, CHR 0x09, CHR 0x0A]) \<noteq> None"
    by (simp add: sampleForm_def)
  have ws: "\<forall>c \<in> set (feedbackText (sampleForm [CHR 0x20, CHR 0x09, CHR 0x0A])). isWhiteSpace c"
    by (simp add: sampleForm_def isWhiteSpace_def)
  from body_stored_untrimmed [of "sampleForm ''  good work  ''" "InvokeRejected JNull"
         "InsertResolved JNull"]
       body_stored_untrimmed [of "sampleForm [CHR 0x20, CHR 0x09, CHR 0x0A]" "InvokeRejected JNull"
         "InsertResolved JNull"]
       acc tr fb si ws
  show ?thesis by (simp add: isWhiteSpace_def)
qed

end
